theory Spec2Isabelle
  imports Main
begin

section \<open>The frames router: shard contract negotiation\<close>

text \<open>
  A shallow embedding of \<^verbatim>\<open>FramesRouter.prototype._getContractForShard\<close> and
  \<^verbatim>\<open>FramesRouter.prototype.addShardToFrame\<close> (the frames router of the bridge).

  The router is a chain of callbacks over collaborators that live outside the
  repository: the storage manager \<^verbatim>\<open>self.contracts\<close>, the network
  \<^verbatim>\<open>self.network\<close>, the document models \<^verbatim>\<open>Frame\<close> and \<^verbatim>\<open>Pointer\<close>, the user
  document \<^verbatim>\<open>req.user\<close>, the library constructors \<^verbatim>\<open>storj.Contract\<close> and
  \<^verbatim>\<open>storj.AuditStream\<close>, the logger, the analytics client and the clock.
  Each callback chain becomes a sequential function over an explicit world; every answer
  of a collaborator is a field of the record \<open>env\<close>, so that each error branch of the
  source is a branch of the model and a theorem holds for every behaviour of the
  collaborators. The calls the router issues are recorded, in the order issued, in the
  world's \<open>calls\<close>.

  JavaScript numbers that count bytes, list lengths and milliseconds are modelled as
  natural numbers (all far below \<open>2^53\<close>).
\<close>

subsection \<open>Data\<close>

type_synonym hash = string
type_synonym nodeID = string

text \<open>The five fields the router passes to \<^verbatim>\<open>new storj.Contract({...})\<close>.\<close>

record contract =
  data_size :: nat
  data_hash :: hash
  store_begin :: nat
  store_end :: nat
  audit_count :: nat

text \<open>
  The audit object that \<^verbatim>\<open>storj.AuditStream.fromRecords(challenges, tree)\<close> returns
  keeps both lists.
\<close>

record audit_stream =
  audit_challenges :: "string list"
  audit_tree :: "string list"

definition fromRecords :: "string list \<Rightarrow> string list \<Rightarrow> audit_stream" where
  "fromRecords cs t = \<lparr>audit_challenges = cs, audit_tree = t\<rparr>"

definition getPublicRecord :: "audit_stream \<Rightarrow> string list" where
  "getPublicRecord a = audit_tree a"

definition getPrivateRecord :: "audit_stream \<Rightarrow> string list" where
  "getPrivateRecord a = audit_challenges a"

record metadata =
  downloadCount :: nat

text \<open>
  \<^verbatim>\<open>storj.StorageItem\<close>: the negotiation state of one shard hash, every part keyed by
  the farmer's node identifier.
\<close>

record storage_item =
  item_hash :: hash
  contracts :: "nodeID \<rightharpoonup> contract"
  trees :: "nodeID \<rightharpoonup> string list"
  challenges :: "nodeID \<rightharpoonup> string list"
  meta :: "nodeID \<rightharpoonup> metadata"

definition StorageItem_new :: "hash \<Rightarrow> storage_item" where
  "StorageItem_new h =
     \<lparr>item_hash = h, contracts = Map.empty, trees = Map.empty,
      challenges = Map.empty, meta = Map.empty\<rparr>"

definition addContract :: "nodeID \<Rightarrow> contract \<Rightarrow> storage_item \<Rightarrow> storage_item" where
  "addContract farmer c item = item\<lparr>contracts := (contracts item)(farmer \<mapsto> c)\<rparr>"

definition addAuditRecords :: "nodeID \<Rightarrow> audit_stream \<Rightarrow> storage_item \<Rightarrow> storage_item" where
  "addAuditRecords farmer a item =
     item\<lparr>trees := (trees item)(farmer \<mapsto> getPublicRecord a),
          challenges := (challenges item)(farmer \<mapsto> getPrivateRecord a)\<rparr>"

definition addMetaData :: "nodeID \<Rightarrow> metadata \<Rightarrow> storage_item \<Rightarrow> storage_item" where
  "addMetaData farmer m item = item\<lparr>meta := (meta item)(farmer \<mapsto> m)\<rparr>"

text \<open>The user document \<^verbatim>\<open>req.user\<close> with its rolling upload counters.\<close>

record bytes_uploaded =
  lastHourBytes :: nat
  lastDayBytes :: nat
  lastMonthBytes :: nat

record user =
  user_id :: string
  email :: string
  uuid :: string
  bytesUploaded :: bytes_uploaded

text \<open>
  \<^verbatim>\<open>req.body\<close>. \<open>exclude\<close> is \<open>Some xs\<close> when \<^verbatim>\<open>req.body.exclude\<close> is an array and
  \<open>None\<close> for every other value (\<^verbatim>\<open>Array.isArray\<close> is the only test the router makes).
\<close>

record body =
  body_index :: nat
  body_hash :: hash
  body_size :: nat
  body_tree :: "string list"
  body_parity :: bool
  body_challenges :: "string list"
  exclude :: "nodeID list option"

record request =
  params_frame :: string
  headers_dnt :: bool
  req_body :: body

text \<open>\<^verbatim>\<open>pointerData\<close>, and the pointer document \<^verbatim>\<open>Pointer.create\<close> answers with.\<close>

record pointer =
  pointer_index :: nat
  pointer_hash :: hash
  pointer_size :: nat
  pointer_tree :: "string list"
  pointer_parity :: bool
  pointer_challenges :: "string list"

record frame =
  frame_id :: string
  shards :: "pointer list"

record dc_pointer =
  token :: string

record response =
  res_hash :: hash
  res_token :: string
  res_operation :: string
  res_farmer :: nodeID

text \<open>
  The error objects handed to \<^verbatim>\<open>next\<close> or \<^verbatim>\<open>done\<close>, each with its message.
  \<open>Error\<close> is a collaborator's plain error passed on unchanged; \<open>TypeError\<close> is the
  exception the runtime throws when a property of \<^verbatim>\<open>null\<close> is read.
\<close>

datatype error =
    TransferRateError string
  | BadRequestError string
  | InternalError string
  | NotFoundError string
  | ServiceUnavailableError string
  | Error string
  | TypeError string

fun message :: "error \<Rightarrow> string" where
  "message (TransferRateError m) = m"
| "message (BadRequestError m) = m"
| "message (InternalError m) = m"
| "message (NotFoundError m) = m"
| "message (ServiceUnavailableError m) = m"
| "message (Error m) = m"
| "message (TypeError m) = m"

subsection \<open>Configuration and constants\<close>

text \<open>\<^verbatim>\<open>config.application.freeTier.up\<close>.\<close>

record rates =
  hourlyBytes :: nat
  dailyBytes :: nat
  monthlyBytes :: nat

text \<open>
  The one property of the constants module the router reads. A property lookup on a
  module that does not define the key yields \<^verbatim>\<open>undefined\<close>: \<open>None\<close>.
\<close>

record constants =
  MAX_BLACKLIST :: "nat option"

text \<open>
  \<^verbatim>\<open>length > constants.MAX_BLACKLIST\<close>: a comparison of a number with
  \<^verbatim>\<open>undefined\<close> converts it to NaN and is false.
\<close>

definition js_gt :: "nat \<Rightarrow> nat option \<Rightarrow> bool" where
  "js_gt n m = (case m of None \<Rightarrow> False | Some k \<Rightarrow> n > k)"

text \<open>\<^verbatim>\<open>ms('90d')\<close>: ninety days in milliseconds.\<close>

definition ms_90d :: nat where
  "ms_90d = 90 * 24 * 60 * 60 * 1000"

subsection \<open>The world and the collaborators\<close>

text \<open>The calls the router issues to its collaborators.\<close>

datatype call =
    LogWarn string
  | AnalyticsTrack string
  | FrameFindOne string string
  | PointerCreate pointer
  | AuditStreamFromRecords "string list" "string list"
  | ContractNew contract
  | ContractsLoad hash
  | GetStorageOffer contract "nodeID list"
  | ContractsSave storage_item bool
  | GetConsignmentPointer nodeID contract audit_stream
  | FrameFindOnePopulate string
  | RecordUploadBytes nat
  | FrameAddShard pointer bool
  | ResSend response

text \<open>
  The world: the calls issued so far (oldest first), the contents of the negotiation
  store behind \<^verbatim>\<open>self.contracts\<close> (one storage item per shard hash), and the user
  document of the request.
\<close>

record world =
  calls :: "call list"
  items :: "hash \<rightharpoonup> storage_item"
  req_user :: user

text \<open>
  The collaborators' answers. An error is the message of the error object
  (\<^verbatim>\<open>err.message\<close> is all the router reads of it).
  \<^item> \<open>isUploadRateLimited\<close>: the user document's method, given the three thresholds;
  \<^item> \<open>Frame_findOne\<close>, \<open>Frame_findOne_populate\<close>: the two frame lookups (\<open>None\<close>: no
    such frame);
  \<^item> \<open>Pointer_create\<close>: the created pointer document, or a validation error;
  \<^item> \<open>AuditStream_throws\<close>, \<open>Contract_throws\<close>: the message of the exception a
    constructor throws, if it throws;
  \<^item> \<open>Date_now\<close>: the value of the \<open>k\<close>-th reading of the clock made by a request;
  \<^item> \<open>load_fault\<close>, \<open>save_fault\<close>: a failure of the storage manager that is not
    "not found";
  \<^item> \<open>getStorageOffer\<close>, \<open>getConsignmentPointer\<close>: the network;
  \<^item> \<open>recordUploadBytes\<close>: the user document's method: an error, if any, and the
    document afterwards;
  \<^item> \<open>addShard\<close>: the frame document's method.
\<close>

record env =
  isUploadRateLimited :: "user \<Rightarrow> nat \<Rightarrow> nat \<Rightarrow> nat \<Rightarrow> bool"
  Frame_findOne :: "string \<Rightarrow> string \<Rightarrow> string + frame option"
  Pointer_create :: "pointer \<Rightarrow> string + pointer"
  AuditStream_throws :: "string list \<Rightarrow> string list \<Rightarrow> string option"
  Contract_throws :: "contract \<Rightarrow> string option"
  Date_now :: "nat \<Rightarrow> nat"
  load_fault :: "hash \<Rightarrow> string option"
  getStorageOffer :: "contract \<Rightarrow> nodeID list \<Rightarrow> string + nodeID \<times> contract"
  save_fault :: "storage_item \<Rightarrow> string option"
  getConsignmentPointer :: "nodeID \<Rightarrow> contract \<Rightarrow> audit_stream \<Rightarrow> string + dc_pointer"
  Frame_findOne_populate :: "string \<Rightarrow> string + frame option"
  recordUploadBytes :: "user \<Rightarrow> nat \<Rightarrow> string option \<times> user"
  addShard :: "frame \<Rightarrow> pointer \<Rightarrow> string option"

definition issue :: "call \<Rightarrow> world \<Rightarrow> world" where
  "issue c w = w\<lparr>calls := calls w @ [c]\<rparr>"

text \<open>
  \<^verbatim>\<open>self.contracts.load(hash, cb)\<close>: the stored item, or an error: the injected fault,
  or "not found" when the store holds nothing under the hash.
\<close>

definition contracts_load :: "env \<Rightarrow> hash \<Rightarrow> world \<Rightarrow> (string + storage_item) \<times> world" where
  "contracts_load e h w =
     ((case load_fault e h of
         Some msg \<Rightarrow> Inl msg
       | None \<Rightarrow> (case items w h of
                    None \<Rightarrow> Inl ''Shard data not found''
                  | Some item \<Rightarrow> Inr item)),
      issue (ContractsLoad h) w)"

text \<open>
  What the storage manager stores when it saves an item over one it already holds: the
  parts are keyed by the farmer's node identifier, and the saved item's entries are
  added to the stored ones, replacing the stored entry of the same farmer.
\<close>

definition merge_items :: "storage_item \<Rightarrow> storage_item \<Rightarrow> storage_item" where
  "merge_items stored item =
     \<lparr>item_hash = item_hash item,
      contracts = contracts stored ++ contracts item,
      trees = trees stored ++ trees item,
      challenges = challenges stored ++ challenges item,
      meta = meta stored ++ meta item\<rparr>"

definition store_merged :: "(hash \<rightharpoonup> storage_item) \<Rightarrow> storage_item \<Rightarrow> storage_item" where
  "store_merged store item =
     (case store (item_hash item) of
        None \<Rightarrow> item
      | Some stored \<Rightarrow> merge_items stored item)"

text \<open>
  \<^verbatim>\<open>self.contracts.save(item, cb)\<close>: the storage manager reads the item stored under
  the item's hash again and stores the merge of the two (the item itself when nothing is
  stored); on failure the store is as before. The storage manager is a library outside
  the repository: this is its contract for one request at a time, and it says nothing
  about how a save combines with one made concurrently by another request.
\<close>

definition contracts_save :: "env \<Rightarrow> storage_item \<Rightarrow> world \<Rightarrow> string option \<times> world" where
  "contracts_save e item w =
     (case save_fault e item of
        Some msg \<Rightarrow> (Some msg, issue (ContractsSave item False) w)
      | None \<Rightarrow>
          (None, (issue (ContractsSave item True) w)
                    \<lparr>items := (items w)(item_hash item \<mapsto> store_merged (items w) item)\<rparr>))"

subsection \<open>The negotiation\<close>

text \<open>
  The callback \<^verbatim>\<open>function(err, item)\<close> that \<^verbatim>\<open>_getContractForShard\<close> passes to
  \<^verbatim>\<open>self.contracts.load\<close>: \<open>loaded\<close> is what the storage manager calls it with.
  The result is what \<^verbatim>\<open>done\<close> is called with: an error, or the farmer and the
  contract it accepted.
\<close>

definition load_callback ::
  "env \<Rightarrow> contract \<Rightarrow> audit_stream \<Rightarrow> nodeID list \<Rightarrow> string + storage_item \<Rightarrow> world
     \<Rightarrow> (error + nodeID \<times> contract) \<times> world" where
  "load_callback e contr audit bl loaded w1 =
     (let hash = data_hash contr;
          item = (case loaded of Inl err \<Rightarrow> StorageItem_new hash | Inr it \<Rightarrow> it);
          w2 = issue (GetStorageOffer contr bl) w1
      in case getStorageOffer e contr bl of
           Inl err \<Rightarrow> (Inl (Error err), w2)
         | Inr (farmer, contract) \<Rightarrow>
             (let item1 = addContract farmer contract item;
                  item2 = addAuditRecords farmer audit item1;
                  item3 = addMetaData farmer \<lparr>downloadCount = 0\<rparr> item2;
                  (failed, w3) = contracts_save e item3 w2
              in case failed of
                   Some msg \<Rightarrow> (Inl (InternalError msg), w3)
                 | None \<Rightarrow> (Inr (farmer, contract), w3)))"

text \<open>\<^verbatim>\<open>_getContractForShard(contr, audit, bl, done)\<close>.\<close>

definition getContractForShard ::
  "env \<Rightarrow> contract \<Rightarrow> audit_stream \<Rightarrow> nodeID list \<Rightarrow> world
     \<Rightarrow> (error + nodeID \<times> contract) \<times> world" where
  "getContractForShard e contr audit bl w =
     (let hash = data_hash contr;
          (loaded, w1) = contracts_load e hash w
      in load_callback e contr audit bl loaded w1)"

subsection \<open>Adding a shard to a frame\<close>

text \<open>
  The object literal passed to \<^verbatim>\<open>new storj.Contract\<close>. The clock is read twice, once
  for \<^verbatim>\<open>store_begin\<close> and once more for \<^verbatim>\<open>store_end\<close>, in this order.
\<close>

definition contract_fields :: "env \<Rightarrow> body \<Rightarrow> contract" where
  "contract_fields e b =
     \<lparr>data_size = body_size b,
      data_hash = body_hash b,
      store_begin = Date_now e 0,
      store_end = Date_now e 1 + ms_90d,
      audit_count = length (body_challenges b)\<rparr>"

definition pointerData :: "body \<Rightarrow> pointer" where
  "pointerData b =
     \<lparr>pointer_index = body_index b,
      pointer_hash = body_hash b,
      pointer_size = body_size b,
      pointer_tree = body_tree b,
      pointer_parity = body_parity b,
      pointer_challenges = body_challenges b\<rparr>"

text \<open>
  The callback of the second frame lookup (\<^verbatim>\<open>Frame.findOne(...).populate('shards').exec\<close>),
  called with \<open>reloaded\<close>. \<^verbatim>\<open>recordUploadBytes\<close> is started before \<^verbatim>\<open>frame.addShard\<close>
  and not waited for; the warning of its own callback, if it fails, is placed right after
  its call. A lookup that finds no frame makes \<^verbatim>\<open>frame.addShard\<close> throw.
\<close>

definition reload_callback ::
  "env \<Rightarrow> body \<Rightarrow> pointer \<Rightarrow> nodeID \<Rightarrow> dc_pointer \<Rightarrow> string + frame option \<Rightarrow> world
     \<Rightarrow> (error + response) \<times> world" where
  "reload_callback e b pointer farmer dcPointer reloaded w7 =
     (case reloaded of
        Inl err \<Rightarrow> (Inl (InternalError err), w7)
      | Inr found \<Rightarrow>
          (let (failed, u') = recordUploadBytes e (req_user w7) (pointer_size pointer);
               w8 = (issue (RecordUploadBytes (pointer_size pointer)) w7)\<lparr>req_user := u'\<rparr>;
               w9 = (case failed of
                       Some err \<Rightarrow>
                         issue (LogWarn ''addShardToFrame: unable to save upload bytes'') w8
                     | None \<Rightarrow> w8)
           in case found of
                None \<Rightarrow> (Inl (TypeError ''Cannot read property addShard of null''), w9)
              | Some frame' \<Rightarrow>
                  (case addShard e frame' pointer of
                     Some err \<Rightarrow>
                       (Inl (InternalError err), issue (FrameAddShard pointer False) w9)
                   | None \<Rightarrow>
                       (let r = \<lparr>res_hash = body_hash b, res_token = token dcPointer,
                                 res_operation = ''PUSH'', res_farmer = farmer\<rparr>
                        in (Inr r,
                            issue (ResSend r) (issue (FrameAddShard pointer True) w9))))))"

text \<open>
  The callback \<^verbatim>\<open>function(err, farmer, contr)\<close> that \<^verbatim>\<open>addShardToFrame\<close> passes to
  \<^verbatim>\<open>_getContractForShard\<close>, called with \<open>negotiated\<close>.
\<close>

definition negotiated_callback ::
  "env \<Rightarrow> body \<Rightarrow> frame \<Rightarrow> pointer \<Rightarrow> audit_stream \<Rightarrow> error + nodeID \<times> contract \<Rightarrow> world
     \<Rightarrow> (error + response) \<times> world" where
  "negotiated_callback e b frame pointer audit negotiated w5 =
     (case negotiated of
        Inl err \<Rightarrow>
          (Inl (ServiceUnavailableError (message err)),
           issue (LogWarn ''Could not get contract for frame'') w5)
      | Inr (farmer, contr) \<Rightarrow>
          (let w6 = issue (GetConsignmentPointer farmer contr audit) w5 in
           case getConsignmentPointer e farmer contr audit of
             Inl err \<Rightarrow>
               (Inl (ServiceUnavailableError err),
                issue (LogWarn ''Could not get consignment pointer for frame'') w6)
           | Inr dcPointer \<Rightarrow>
               (let w7 = issue (FrameFindOnePopulate (frame_id frame)) w6 in
                reload_callback e b pointer farmer dcPointer
                  (Frame_findOne_populate e (frame_id frame)) w7)))"

text \<open>
  The callback of \<^verbatim>\<open>Pointer.create\<close>, called with the created pointer: the audit
  stream and the contract are built, then the negotiation starts.
\<close>

definition pointer_callback ::
  "env \<Rightarrow> body \<Rightarrow> frame \<Rightarrow> pointer \<Rightarrow> world \<Rightarrow> (error + response) \<times> world" where
  "pointer_callback e b frame pointer w2 =
     (let w3 = issue (AuditStreamFromRecords (body_challenges b) (body_tree b)) w2 in
      case AuditStream_throws e (body_challenges b) (body_tree b) of
        Some err \<Rightarrow> (Inl (BadRequestError err), w3)
      | None \<Rightarrow>
          (let audit = fromRecords (body_challenges b) (body_tree b);
               contr = contract_fields e b;
               w4 = issue (ContractNew contr) w3
           in case Contract_throws e contr of
                Some err \<Rightarrow> (Inl (BadRequestError err), w4)
              | None \<Rightarrow>
                  (let bl = (case exclude b of Some xs \<Rightarrow> xs | None \<Rightarrow> []);
                       (negotiated, w5) = getContractForShard e contr audit bl w4
                   in negotiated_callback e b frame pointer audit negotiated w5)))"

text \<open>
  \<^verbatim>\<open>addShardToFrame(req, res, next)\<close>. The result is \<open>Inl err\<close> when the request ends
  in \<^verbatim>\<open>next(err)\<close> (or in an uncaught exception) and \<open>Inr r\<close> when it ends in
  \<^verbatim>\<open>res.send(r)\<close>.
\<close>

definition addShardToFrame ::
  "env \<Rightarrow> constants \<Rightarrow> rates \<Rightarrow> request \<Rightarrow> world \<Rightarrow> (error + response) \<times> world" where
  "addShardToFrame e consts up req w =
     (let b = req_body req; u = req_user w in
      if isUploadRateLimited e u (hourlyBytes up) (dailyBytes up) (monthlyBytes up) then
        (Inl (TransferRateError
               ''Could not add shard to frame, transfer rate limit reached.''),
         issue (AnalyticsTrack ''User Upload Rate Limited'')
           (issue (LogWarn ''addShardToFrame: Transfer rate limited'') w))
      else if (case exclude b of
                 Some xs \<Rightarrow> js_gt (length xs) (MAX_BLACKLIST consts)
               | None \<Rightarrow> False) then
        (Inl (BadRequestError ''Maximum blacklist length''), w)
      else
        (let w1 = issue (FrameFindOne (params_frame req) (user_id u)) w in
         case Frame_findOne e (params_frame req) (user_id u) of
           Inl err \<Rightarrow> (Inl (InternalError err), w1)
         | Inr None \<Rightarrow> (Inl (NotFoundError ''Frame not found''), w1)
         | Inr (Some frame) \<Rightarrow>
             (let w2 = issue (PointerCreate (pointerData b)) w1 in
              case Pointer_create e (pointerData b) of
                Inl err \<Rightarrow> (Inl (BadRequestError err), w2)
              | Inr pointer \<Rightarrow> pointer_callback e b frame pointer w2)))"

subsection \<open>Predicates used in the statements\<close>

text \<open>
  The storage item records the farmer: its contract, the audit records derived from the
  audit stream, and the baseline metadata with a zeroed download counter.
\<close>

definition records_farmer ::
  "storage_item \<Rightarrow> nodeID \<Rightarrow> contract \<Rightarrow> audit_stream \<Rightarrow> bool" where
  "records_farmer item farmer c a =
     (contracts item farmer = Some c \<and>
      trees item farmer = Some (getPublicRecord a) \<and>
      challenges item farmer = Some (getPrivateRecord a) \<and>
      meta item farmer = Some \<lparr>downloadCount = 0\<rparr>)"

text \<open>
  The request gets as far as the negotiation: it is admitted, its exclusion list is not
  rejected, the frame is found, the pointer is created, and neither constructor throws.
\<close>

definition reaches_negotiation ::
  "env \<Rightarrow> constants \<Rightarrow> rates \<Rightarrow> request \<Rightarrow> world \<Rightarrow> frame \<Rightarrow> pointer \<Rightarrow> bool" where
  "reaches_negotiation e consts up req w frame pointer =
     (\<not> isUploadRateLimited e (req_user w) (hourlyBytes up) (dailyBytes up) (monthlyBytes up)
      \<and> \<not> (case exclude (req_body req) of
               Some xs \<Rightarrow> js_gt (length xs) (MAX_BLACKLIST consts)
             | None \<Rightarrow> False)
      \<and> Frame_findOne e (params_frame req) (user_id (req_user w)) = Inr (Some frame)
      \<and> Pointer_create e (pointerData (req_body req)) = Inr pointer
      \<and> AuditStream_throws e (body_challenges (req_body req)) (body_tree (req_body req)) = None
      \<and> Contract_throws e (contract_fields e (req_body req)) = None)"

text \<open>The exclusion list handed to the negotiation: \<^verbatim>\<open>bl\<close>.\<close>

definition blacklist_of :: "body \<Rightarrow> nodeID list" where
  "blacklist_of b = (case exclude b of Some xs \<Rightarrow> xs | None \<Rightarrow> [])"

text \<open>
  The item the negotiation saves for a farmer: the item it started from (the loaded one,
  or a new one when the load failed) with the farmer's three entries added.
\<close>

definition started_from :: "env \<Rightarrow> hash \<Rightarrow> world \<Rightarrow> storage_item" where
  "started_from e h w =
     (case fst (contracts_load e h w) of Inl err \<Rightarrow> StorageItem_new h | Inr it \<Rightarrow> it)"

definition with_farmer ::
  "nodeID \<Rightarrow> contract \<Rightarrow> audit_stream \<Rightarrow> storage_item \<Rightarrow> storage_item" where
  "with_farmer farmer c a item =
     addMetaData farmer \<lparr>downloadCount = 0\<rparr>
       (addAuditRecords farmer a (addContract farmer c item))"

text \<open>The admission check denied the request: it ended in the transfer-rate error.\<close>

definition admission_denied :: "env \<Rightarrow> constants \<Rightarrow> rates \<Rightarrow> request \<Rightarrow> world \<Rightarrow> bool" where
  "admission_denied e consts up req w =
     (case fst (addShardToFrame e consts up req w) of
        Inl (TransferRateError msg) \<Rightarrow> True
      | _ \<Rightarrow> False)"

text \<open>
  The decision as the specification words it: some counter, after the shard's size is
  added to it, exceeds its threshold.
\<close>

definition exceeds_after_upload :: "rates \<Rightarrow> user \<Rightarrow> nat \<Rightarrow> bool" where
  "exceeds_after_upload up u n =
     (hourlyBytes up < lastHourBytes (bytesUploaded u) + n \<or>
      dailyBytes up < lastDayBytes (bytesUploaded u) + n \<or>
      monthlyBytes up < lastMonthBytes (bytesUploaded u) + n)"

subsection \<open>Example collaborators and requests\<close>

text \<open>
  Collaborators that all succeed: a user document that is limited once a counter has
  reached its threshold and that adds recorded bytes to every counter, a network that
  answers with farmer \<open>F1\<close> and token \<open>T1\<close>, and a clock that advances by one
  millisecond between two readings.
\<close>

definition env_ok :: env where
  "env_ok =
     \<lparr>isUploadRateLimited = (\<lambda>u h d m.
          h \<le> lastHourBytes (bytesUploaded u) \<or> d \<le> lastDayBytes (bytesUploaded u)
          \<or> m \<le> lastMonthBytes (bytesUploaded u)),
      Frame_findOne = (\<lambda>fid uid. Inr (Some \<lparr>frame_id = fid, shards = []\<rparr>)),
      Pointer_create = (\<lambda>p. Inr p),
      AuditStream_throws = (\<lambda>cs t. None),
      Contract_throws = (\<lambda>c. None),
      Date_now = (\<lambda>k. 1000 + k),
      load_fault = (\<lambda>h. None),
      getStorageOffer = (\<lambda>c bl. Inr (''F1'', c)),
      save_fault = (\<lambda>item. None),
      getConsignmentPointer = (\<lambda>f c a. Inr \<lparr>token = ''T1''\<rparr>),
      Frame_findOne_populate = (\<lambda>fid. Inr (Some \<lparr>frame_id = fid, shards = []\<rparr>)),
      recordUploadBytes = (\<lambda>u n. (None, u\<lparr>bytesUploaded :=
          \<lparr>lastHourBytes = lastHourBytes (bytesUploaded u) + n,
           lastDayBytes = lastDayBytes (bytesUploaded u) + n,
           lastMonthBytes = lastMonthBytes (bytesUploaded u) + n\<rparr>\<rparr>)),
      addShard = (\<lambda>f p. None)\<rparr>"

definition env_no_token :: env where
  "env_no_token = env_ok\<lparr>getConsignmentPointer := (\<lambda>f c a. Inl ''farmer unreachable'')\<rparr>"

definition env_no_attach :: env where
  "env_no_attach = env_ok\<lparr>addShard := (\<lambda>f p. Some ''frame write failed'')\<rparr>"

definition env_load_fault :: env where
  "env_load_fault = env_ok\<lparr>load_fault := (\<lambda>h. Some ''connection lost'')\<rparr>"

definition user0 :: user where
  "user0 = \<lparr>user_id = ''u1'', email = ''user@example.com'', uuid = ''uuid-1'',
            bytesUploaded = \<lparr>lastHourBytes = 0, lastDayBytes = 0, lastMonthBytes = 0\<rparr>\<rparr>"

definition user_limited :: user where
  "user_limited = user0\<lparr>bytesUploaded :=
     \<lparr>lastHourBytes = 0, lastDayBytes = 10000000000, lastMonthBytes = 10000000000\<rparr>\<rparr>"

definition user_near :: user where
  "user_near = user0\<lparr>bytesUploaded :=
     \<lparr>lastHourBytes = 0, lastDayBytes = 9900000000, lastMonthBytes = 9900000000\<rparr>\<rparr>"

definition world0 :: world where
  "world0 = \<lparr>calls = [], items = Map.empty, req_user = user0\<rparr>"

definition world_limited :: world where
  "world_limited = world0\<lparr>req_user := user_limited\<rparr>"

definition world_near :: world where
  "world_near = world0\<lparr>req_user := user_near\<rparr>"

definition body0 :: body where
  "body0 = \<lparr>body_index = 0, body_hash = ''h1'', body_size = 1000000,
            body_tree = [''t1'', ''t2'', ''t3'', ''t4''], body_parity = False,
            body_challenges = [''c1'', ''c2'', ''c3'', ''c4''], exclude = None\<rparr>"

definition req0 :: request where
  "req0 = \<lparr>params_frame = ''frame1'', headers_dnt = False, req_body = body0\<rparr>"

definition req_sized :: "nat \<Rightarrow> request" where
  "req_sized n = req0\<lparr>req_body := body0\<lparr>body_size := n\<rparr>\<rparr>"

text \<open>A request that excludes ten thousand farmers.\<close>

definition req_excluding :: request where
  "req_excluding = req0\<lparr>req_body := body0\<lparr>exclude := Some (replicate 10000 ''n1'')\<rparr>\<rparr>"

definition audit0 :: audit_stream where
  "audit0 = fromRecords (body_challenges body0) (body_tree body0)"

definition contr0 :: contract where
  "contr0 = \<lparr>data_size = 1000000, data_hash = ''h1'', store_begin = 1000,
             store_end = 7776001001, audit_count = 4\<rparr>"

definition rates0 :: rates where
  "rates0 = \<lparr>hourlyBytes = 10000000000, dailyBytes = 10000000000,
             monthlyBytes = 10000000000\<rparr>"

text \<open>The constants module of the repository defines no \<^verbatim>\<open>MAX_BLACKLIST\<close>.\<close>

definition constants_src :: constants where
  "constants_src = \<lparr>MAX_BLACKLIST = None\<rparr>"

text \<open>
  The calls of the request \<open>req0\<close> up to the storage offer, the item saved for farmer
  \<open>F1\<close> on an empty store, and the user after the shard's bytes were recorded.
\<close>

definition pointer0 :: pointer where
  "pointer0 = pointerData body0"

definition calls_to_offer :: "call list" where
  "calls_to_offer =
     [FrameFindOne ''frame1'' ''u1'', PointerCreate pointer0,
      AuditStreamFromRecords (body_challenges body0) (body_tree body0), ContractNew contr0,
      ContractsLoad ''h1'', GetStorageOffer contr0 []]"

definition item_F1 :: storage_item where
  "item_F1 = with_farmer ''F1'' contr0 audit0 (StorageItem_new ''h1'')"

definition user_recorded :: user where
  "user_recorded = user0\<lparr>bytesUploaded :=
     \<lparr>lastHourBytes = 1000000, lastDayBytes = 1000000, lastMonthBytes = 1000000\<rparr>\<rparr>"

definition response0 :: response where
  "response0 = \<lparr>res_hash = ''h1'', res_token = ''T1'', res_operation = ''PUSH'',
                 res_farmer = ''F1''\<rparr>"

text \<open>A store that already holds a contract of farmer \<open>F0\<close> for the shard \<open>h1\<close>.\<close>

definition item_F0 :: storage_item where
  "item_F0 = addContract ''F0'' contr0 (StorageItem_new ''h1'')"

definition world_held :: world where
  "world_held = world0\<lparr>items := [''h1'' \<mapsto> item_F0]\<rparr>"

subsection \<open>Evaluation\<close>

lemmas router_defs = addShardToFrame_def pointer_callback_def negotiated_callback_def
  reload_callback_def getContractForShard_def load_callback_def contracts_load_def
  contracts_save_def Let_def issue_def pointerData_def contract_fields_def ms_90d_def
  addContract_def addAuditRecords_def addMetaData_def StorageItem_new_def
  getPublicRecord_def getPrivateRecord_def js_gt_def fromRecords_def store_merged_def
  merge_items_def

lemmas example_defs = env_ok_def user0_def world0_def body0_def req0_def audit0_def
  contr0_def rates0_def constants_src_def pointer0_def calls_to_offer_def item_F1_def
  user_recorded_def response0_def with_farmer_def

lemma four_challenges: "Suc (Suc (Suc (Suc 0))) = 4"
  by simp

lemma issue_simps [simp]:
  "calls (issue c w) = calls w @ [c]"
  "items (issue c w) = items w"
  "req_user (issue c w) = req_user w"
  by (simp_all add: issue_def)

subsection \<open>The negotiation\<close>

lemma records_farmer_added:
  "records_farmer
     (addMetaData f \<lparr>downloadCount = 0\<rparr> (addAuditRecords f a (addContract f c item))) f c a"
  by (simp add: records_farmer_def addMetaData_def addAuditRecords_def addContract_def)

lemma item_hash_added:
  "item_hash (addMetaData f m (addAuditRecords f a (addContract f c item))) = item_hash item"
  by (simp add: addMetaData_def addAuditRecords_def addContract_def)

lemma load_failed_as_empty:
  "load_callback e contr audit bl (Inl err) w =
   load_callback e contr audit bl (Inr (StorageItem_new (data_hash contr))) w"
  by (simp add: load_callback_def)

lemma contracts_load_world: "snd (contracts_load e h w) = issue (ContractsLoad h) w"
  by (simp add: contracts_load_def)

lemma contracts_load_missing:
  "items w h = None \<Longrightarrow> \<exists>msg. fst (contracts_load e h w) = Inl msg"
  by (simp add: contracts_load_def split: option.splits)

lemma getContractForShard_load:
  "getContractForShard e contr audit bl w =
   load_callback e contr audit bl (fst (contracts_load e (data_hash contr) w))
     (issue (ContractsLoad (data_hash contr)) w)"
  by (simp add: getContractForShard_def Let_def split_beta contracts_load_world)

text \<open>
  The callback of the load when the load has failed, whatever the error: it starts from
  a new item for the hash. When the offer fails, the offer's error is the result; when
  the offer succeeds, the save is called with the new item holding the farmer's entries,
  and the result is the farmer and its contract, or the save's error.
\<close>

lemma load_callback_after_failed_load:
  "load_callback e contr audit bl (Inl err) w =
     (case getStorageOffer e contr bl of
        Inl oerr \<Rightarrow> (Inl (Error oerr), issue (GetStorageOffer contr bl) w)
      | Inr (farmer, c) \<Rightarrow>
          (case save_fault e (with_farmer farmer c audit (StorageItem_new (data_hash contr))) of
             None \<Rightarrow> Inr (farmer, c)
           | Some msg \<Rightarrow> Inl (InternalError msg),
           snd (contracts_save e (with_farmer farmer c audit (StorageItem_new (data_hash contr)))
                 (issue (GetStorageOffer contr bl) w))))"
  by (simp add: load_callback_def Let_def with_farmer_def contracts_save_def
      split: sum.splits prod.splits option.splits)

lemma contracts_save_calls:
  "calls (snd (contracts_save e item w)) = calls w @ [ContractsSave item (save_fault e item = None)]"
  by (simp add: contracts_save_def split: option.splits)

lemma getContractForShard_after_failed_load:
  assumes "fst (contracts_load e (data_hash contr) w) = Inl err"
  shows "(\<forall>oerr. getStorageOffer e contr bl = Inl oerr \<longrightarrow>
            getContractForShard e contr audit bl w =
              (Inl (Error oerr),
               issue (GetStorageOffer contr bl) (issue (ContractsLoad (data_hash contr)) w)))
       \<and> (\<forall>farmer c. getStorageOffer e contr bl = Inr (farmer, c) \<longrightarrow>
            calls (snd (getContractForShard e contr audit bl w)) =
              calls w @ [ContractsLoad (data_hash contr), GetStorageOffer contr bl,
                         ContractsSave
                           (with_farmer farmer c audit (StorageItem_new (data_hash contr)))
                           (save_fault e
                              (with_farmer farmer c audit (StorageItem_new (data_hash contr)))
                            = None)]
            \<and> fst (getContractForShard e contr audit bl w) =
                (case save_fault e
                        (with_farmer farmer c audit (StorageItem_new (data_hash contr))) of
                   None \<Rightarrow> Inr (farmer, c)
                 | Some msg \<Rightarrow> Inl (InternalError msg)))"
  using assms
  by (simp add: getContractForShard_load load_callback_after_failed_load contracts_save_calls)

lemma with_farmer_new:
  "with_farmer farmer c audit (StorageItem_new h) =
     \<lparr>item_hash = h, contracts = [farmer \<mapsto> c],
      trees = [farmer \<mapsto> getPublicRecord audit],
      challenges = [farmer \<mapsto> getPrivateRecord audit],
      meta = [farmer \<mapsto> \<lparr>downloadCount = 0\<rparr>]\<rparr>"
  by (simp add: with_farmer_def addMetaData_def addAuditRecords_def addContract_def
      StorageItem_new_def)

text \<open>
  Claim C7. When the negotiation store holds no item for the shard hash, the load does not
  fail the negotiation: \<^verbatim>\<open>_getContractForShard\<close> synthesizes an empty storage item
  scoped to the hash and the negotiation proceeds with it. The storage offer is requested;
  if the offer fails, the result is the offer's error; if the offer succeeds, the item
  handed to the save is the synthesized item with the farmer's entries recorded into it,
  and the negotiation succeeds with the farmer and its contract unless the save itself
  fails. No other failure is possible.
\<close>

theorem missing_item_negotiates_with_empty_item:
  assumes "items w (data_hash contr) = None"
  shows "(\<forall>oerr. getStorageOffer e contr bl = Inl oerr \<longrightarrow>
            getContractForShard e contr audit bl w =
              (Inl (Error oerr),
               issue (GetStorageOffer contr bl) (issue (ContractsLoad (data_hash contr)) w)))
       \<and> (\<forall>farmer c. getStorageOffer e contr bl = Inr (farmer, c) \<longrightarrow>
            calls (snd (getContractForShard e contr audit bl w)) =
              calls w @ [ContractsLoad (data_hash contr), GetStorageOffer contr bl,
                         ContractsSave
                           (with_farmer farmer c audit (StorageItem_new (data_hash contr)))
                           (save_fault e
                              (with_farmer farmer c audit (StorageItem_new (data_hash contr)))
                            = None)]
            \<and> fst (getContractForShard e contr audit bl w) =
                (case save_fault e
                        (with_farmer farmer c audit (StorageItem_new (data_hash contr))) of
                   None \<Rightarrow> Inr (farmer, c)
                 | Some msg \<Rightarrow> Inl (InternalError msg)))
       \<and> StorageItem_new (data_hash contr) =
           \<lparr>item_hash = data_hash contr, contracts = Map.empty, trees = Map.empty,
            challenges = Map.empty, meta = Map.empty\<rparr>"
proof -
  from assms obtain msg where "fst (contracts_load e (data_hash contr) w) = Inl msg"
    using contracts_load_missing by blast
  from getContractForShard_after_failed_load [OF this] show ?thesis
    by (simp add: StorageItem_new_def)
qed

theorem missing_item_negotiates_with_empty_item_witness:
  "items world0 (data_hash contr0) = None
   \<and> getStorageOffer env_ok contr0 [] = Inr (''F1'', contr0)
   \<and> save_fault env_ok item_F1 = None
   \<and> calls (snd (getContractForShard env_ok contr0 audit0 [] world0)) =
       [ContractsLoad ''h1'', GetStorageOffer contr0 [], ContractsSave item_F1 True]
   \<and> fst (getContractForShard env_ok contr0 audit0 [] world0) = Inr (''F1'', contr0)"
proof -
  have h: "items world0 (data_hash contr0) = None"
    by (simp add: world0_def)
  have offer: "getStorageOffer env_ok contr0 [] = Inr (''F1'', contr0)"
    by (simp add: env_ok_def)
  have save: "save_fault env_ok x = None" for x
    by (simp add: env_ok_def)
  have d: "data_hash contr0 = ''h1''" "calls world0 = []"
    by (simp_all add: contr0_def world0_def)
  from missing_item_negotiates_with_empty_item
         [OF h, of env_ok "[]" audit0, THEN conjunct2, THEN conjunct1, rule_format, OF offer]
  have "calls (snd (getContractForShard env_ok contr0 audit0 [] world0)) =
          [ContractsLoad ''h1'', GetStorageOffer contr0 [], ContractsSave item_F1 True]
      \<and> fst (getContractForShard env_ok contr0 audit0 [] world0) = Inr (''F1'', contr0)"
    by (simp add: save d item_F1_def)
  with h offer save show ?thesis
    by simp
qed

text \<open>
  Claim C10. Whatever error the load of the negotiation store reports (an injected fault
  as much as "not found"), \<^verbatim>\<open>_getContractForShard\<close> swallows it and proceeds with a
  freshly created empty item for the hash: the load error never reaches the caller,
  whose result is the offer's error, the save's error, or the farmer and its contract.
  Consequently the item handed to the save after a failed load is built from empty
  state: it holds the new farmer's entries and nothing else, also when the store holds
  an item for the hash.
\<close>

theorem load_error_swallowed:
  assumes "fst (contracts_load e (data_hash contr) w) = Inl err"
  shows "(\<forall>oerr. getStorageOffer e contr bl = Inl oerr \<longrightarrow>
            getContractForShard e contr audit bl w =
              (Inl (Error oerr),
               issue (GetStorageOffer contr bl) (issue (ContractsLoad (data_hash contr)) w)))
       \<and> (\<forall>farmer c. getStorageOffer e contr bl = Inr (farmer, c) \<longrightarrow>
            calls (snd (getContractForShard e contr audit bl w)) =
              calls w @ [ContractsLoad (data_hash contr), GetStorageOffer contr bl,
                         ContractsSave
                           \<lparr>item_hash = data_hash contr, contracts = [farmer \<mapsto> c],
                            trees = [farmer \<mapsto> getPublicRecord audit],
                            challenges = [farmer \<mapsto> getPrivateRecord audit],
                            meta = [farmer \<mapsto> \<lparr>downloadCount = 0\<rparr>]\<rparr>
                           (save_fault e
                              \<lparr>item_hash = data_hash contr, contracts = [farmer \<mapsto> c],
                               trees = [farmer \<mapsto> getPublicRecord audit],
                               challenges = [farmer \<mapsto> getPrivateRecord audit],
                               meta = [farmer \<mapsto> \<lparr>downloadCount = 0\<rparr>]\<rparr>
                            = None)]
            \<and> fst (getContractForShard e contr audit bl w) =
                (case save_fault e
                        \<lparr>item_hash = data_hash contr, contracts = [farmer \<mapsto> c],
                         trees = [farmer \<mapsto> getPublicRecord audit],
                         challenges = [farmer \<mapsto> getPrivateRecord audit],
                         meta = [farmer \<mapsto> \<lparr>downloadCount = 0\<rparr>]\<rparr> of
                   None \<Rightarrow> Inr (farmer, c)
                 | Some msg \<Rightarrow> Inl (InternalError msg)))"
  using getContractForShard_after_failed_load [OF assms, of bl audit]
  by (simp add: with_farmer_new)

theorem load_error_swallowed_witness:
  "fst (contracts_load env_load_fault (data_hash contr0) world_held) = Inl ''connection lost''
   \<and> items world_held ''h1'' = Some item_F0
   \<and> contracts item_F0 ''F0'' = Some contr0
   \<and> getStorageOffer env_load_fault contr0 [] = Inr (''F1'', contr0)
   \<and> calls (snd (getContractForShard env_load_fault contr0 audit0 [] world_held)) =
       [ContractsLoad ''h1'', GetStorageOffer contr0 [],
        ContractsSave
          \<lparr>item_hash = ''h1'', contracts = [''F1'' \<mapsto> contr0],
           trees = [''F1'' \<mapsto> getPublicRecord audit0],
           challenges = [''F1'' \<mapsto> getPrivateRecord audit0],
           meta = [''F1'' \<mapsto> \<lparr>downloadCount = 0\<rparr>]\<rparr> True]
   \<and> fst (getContractForShard env_load_fault contr0 audit0 [] world_held) = Inr (''F1'', contr0)"
proof -
  have h: "fst (contracts_load env_load_fault (data_hash contr0) world_held)
             = Inl ''connection lost''"
    by (simp add: contracts_load_def env_load_fault_def env_ok_def)
  have offer: "getStorageOffer env_load_fault contr0 [] = Inr (''F1'', contr0)"
    by (simp add: env_load_fault_def env_ok_def)
  have save: "save_fault env_load_fault x = None" for x
    by (simp add: env_load_fault_def env_ok_def)
  have d: "data_hash contr0 = ''h1''" "calls world_held = []"
    by (simp_all add: contr0_def world_held_def world0_def)
  have held: "items world_held ''h1'' = Some item_F0 \<and> contracts item_F0 ''F0'' = Some contr0"
    by (simp add: world_held_def item_F0_def addContract_def)
  from load_error_swallowed
         [OF h, of "[]" audit0, THEN conjunct2, rule_format, OF offer]
  have "calls (snd (getContractForShard env_load_fault contr0 audit0 [] world_held)) =
       [ContractsLoad ''h1'', GetStorageOffer contr0 [],
        ContractsSave
          \<lparr>item_hash = ''h1'', contracts = [''F1'' \<mapsto> contr0],
           trees = [''F1'' \<mapsto> getPublicRecord audit0],
           challenges = [''F1'' \<mapsto> getPrivateRecord audit0],
           meta = [''F1'' \<mapsto> \<lparr>downloadCount = 0\<rparr>]\<rparr> True]
      \<and> fst (getContractForShard env_load_fault contr0 audit0 [] world_held)
          = Inr (''F1'', contr0)"
    by (simp add: save d)
  with h held offer show ?thesis
    by simp
qed

subsection \<open>Admission and validation\<close>

text \<open>
  Claim C4. When the admission check denies the upload, the request fails with the
  transfer-rate error and nothing is mutated: the negotiation store and the user document
  (with its upload counters) are as before, and the only calls issued are the warning and
  the rate-limit analytics event; no pointer is created, no contract is built and the
  store is not touched.
\<close>

theorem denied_admission_changes_nothing:
  assumes "isUploadRateLimited e (req_user w) (hourlyBytes up) (dailyBytes up) (monthlyBytes up)"
  shows "fst (addShardToFrame e consts up req w) =
           Inl (TransferRateError
                 ''Could not add shard to frame, transfer rate limit reached.'')
         \<and> items (snd (addShardToFrame e consts up req w)) = items w
         \<and> req_user (snd (addShardToFrame e consts up req w)) = req_user w
         \<and> calls (snd (addShardToFrame e consts up req w)) =
             calls w @ [LogWarn ''addShardToFrame: Transfer rate limited'',
                        AnalyticsTrack ''User Upload Rate Limited'']"
  using assms by (simp add: addShardToFrame_def)

theorem denied_admission_changes_nothing_witness:
  "isUploadRateLimited env_ok (req_user world_limited) (hourlyBytes rates0) (dailyBytes rates0)
     (monthlyBytes rates0)
   \<and> fst (addShardToFrame env_ok constants_src rates0 req0 world_limited) =
       Inl (TransferRateError ''Could not add shard to frame, transfer rate limit reached.'')
   \<and> items (snd (addShardToFrame env_ok constants_src rates0 req0 world_limited)) = Map.empty
   \<and> req_user (snd (addShardToFrame env_ok constants_src rates0 req0 world_limited)) = user_limited
   \<and> calls (snd (addShardToFrame env_ok constants_src rates0 req0 world_limited)) =
       [LogWarn ''addShardToFrame: Transfer rate limited'',
        AnalyticsTrack ''User Upload Rate Limited'']"
proof -
  have h: "isUploadRateLimited env_ok (req_user world_limited) (hourlyBytes rates0)
             (dailyBytes rates0) (monthlyBytes rates0)"
    by (simp add: env_ok_def world_limited_def world0_def user_limited_def user0_def rates0_def)
  have w: "items world_limited = Map.empty \<and> req_user world_limited = user_limited
           \<and> calls world_limited = []"
    by (simp add: world_limited_def world0_def)
  from denied_admission_changes_nothing [OF h, of constants_src req0] h w show ?thesis
    by simp
qed

text \<open>
  The comparison with a maximum that the constants module does not define is false for
  every list: such a module rejects no exclusion list.
\<close>

lemma undefined_maximum_never_rejects:
  "MAX_BLACKLIST consts = None \<Longrightarrow>
   \<not> (case exclude b of Some xs \<Rightarrow> js_gt (length xs) (MAX_BLACKLIST consts) | None \<Rightarrow> False)"
  by (simp add: js_gt_def split: option.splits)

text \<open>
  Claim C1, at a failing input. The guard compares the length of the exclusion list with
  \<^verbatim>\<open>constants.MAX_BLACKLIST\<close>, which the constants module of the repository does not
  define, so it never fires. An admitted request whose exclusion list has ten thousand
  entries is not rejected with the bad-request error: the frame is looked up, the pointer
  is created, the storage offer is requested from the network with the whole list, and
  the request ends in the response.
\<close>

theorem exclusion_list_guard_never_fires:
  "MAX_BLACKLIST constants_src = None
   \<and> exclude (req_body req_excluding) = Some (replicate 10000 ''n1'')
   \<and> length (replicate 10000 ''n1'') = 10000
   \<and> \<not> isUploadRateLimited env_ok (req_user world0) (hourlyBytes rates0) (dailyBytes rates0)
         (monthlyBytes rates0)
   \<and> fst (addShardToFrame env_ok constants_src rates0 req_excluding world0) = Inr response0
   \<and> calls (snd (addShardToFrame env_ok constants_src rates0 req_excluding world0)) =
       [FrameFindOne ''frame1'' ''u1'', PointerCreate pointer0,
        AuditStreamFromRecords (body_challenges body0) (body_tree body0), ContractNew contr0,
        ContractsLoad ''h1'', GetStorageOffer contr0 (replicate 10000 ''n1''),
        ContractsSave item_F1 True, GetConsignmentPointer ''F1'' contr0 audit0,
        FrameFindOnePopulate ''frame1'', RecordUploadBytes 1000000,
        FrameAddShard pointer0 True, ResSend response0]"
  by (simp add: router_defs example_defs req_excluding_def four_challenges)

text \<open>
  No callback behind the admission check ends in a transfer-rate error.
\<close>

lemma reload_callback_not_rate:
  "fst (reload_callback e b pointer farmer dcPointer reloaded w) \<noteq> Inl (TransferRateError m)"
  by (simp add: reload_callback_def Let_def split: sum.splits prod.splits option.splits)

lemma negotiated_callback_not_rate:
  "fst (negotiated_callback e b frame pointer audit negotiated w) \<noteq> Inl (TransferRateError m)"
  by (simp add: negotiated_callback_def Let_def reload_callback_not_rate
      split: sum.splits prod.splits)

lemma pointer_callback_not_rate:
  "fst (pointer_callback e b frame pointer w) \<noteq> Inl (TransferRateError m)"
  by (simp add: pointer_callback_def Let_def negotiated_callback_not_rate
      split: option.splits prod.splits)

text \<open>
  Claim C5 (amended). The admission decision of \<^verbatim>\<open>addShardToFrame\<close> denies the upload
  exactly when the user document's \<^verbatim>\<open>isUploadRateLimited\<close>, called with the three
  configured free-tier thresholds, answers true. The size of the shard is not passed to
  it, so the decision is the same for every shard size.
\<close>

theorem admission_is_isUploadRateLimited:
  "admission_denied e consts up req w =
     isUploadRateLimited e (req_user w) (hourlyBytes up) (dailyBytes up) (monthlyBytes up)
   \<and> admission_denied e consts up (req\<lparr>req_body := (req_body req)\<lparr>body_size := n\<rparr>\<rparr>) w =
     admission_denied e consts up req w"
proof -
  have "admission_denied e consts up r w =
     isUploadRateLimited e (req_user w) (hourlyBytes up) (dailyBytes up) (monthlyBytes up)"
    for r
  proof (cases "isUploadRateLimited e (req_user w) (hourlyBytes up) (dailyBytes up)
      (monthlyBytes up)")
    case True
    then show ?thesis
      by (simp add: admission_denied_def addShardToFrame_def)
  next
    case False
    have "fst (addShardToFrame e consts up r w) \<noteq> Inl (TransferRateError m)" for m
      using False
      by (simp add: addShardToFrame_def Let_def pointer_callback_not_rate
          split: sum.splits option.splits)
    with False show ?thesis
      by (simp add: admission_denied_def split: sum.splits error.splits)
  qed
  then show ?thesis by simp
qed

text \<open>
  The claim as stated fails: a user who has uploaded 9.9 GB of a daily quota of 10 GB is
  admitted with a shard of 200 MB, which would take the daily counter over the
  threshold, exactly as with a shard of one byte, which would not.
\<close>

theorem admission_ignores_shard_size_counterexample:
  "\<not> ((admission_denied env_ok constants_src rates0 (req_sized 200000000) world_near
          = exceeds_after_upload rates0 (req_user world_near) 200000000)
      \<and> (admission_denied env_ok constants_src rates0 (req_sized 1) world_near
          = exceeds_after_upload rates0 (req_user world_near) 1))"
proof -
  have "\<not> admission_denied env_ok constants_src rates0 (req_sized 200000000) world_near"
    by (simp add: admission_denied_def router_defs example_defs req_sized_def
        world_near_def user_near_def)
  moreover have "exceeds_after_upload rates0 (req_user world_near) 200000000"
    by (simp add: exceeds_after_upload_def example_defs world_near_def user_near_def)
  ultimately show ?thesis by simp
qed

subsection \<open>The contract\<close>

lemma contract_fields_window:
  "store_begin (contract_fields e b) = Date_now e 0
   \<and> store_end (contract_fields e b) = Date_now e 1 + ms_90d
   \<and> audit_count (contract_fields e b) = length (body_challenges b)
   \<and> (store_end (contract_fields e b) = store_begin (contract_fields e b) + ms_90d
        \<longleftrightarrow> Date_now e 1 = Date_now e 0)"
  by (simp add: contract_fields_def)

text \<open>
  Claim C6, at a failing input. The clock is read once for \<^verbatim>\<open>store_begin\<close> and once
  more for \<^verbatim>\<open>store_end\<close>. With a clock that reads 1000 and then 1001, the contract
  built for the request and sent to the network has \<^verbatim>\<open>store_begin\<close> 1000 and
  \<^verbatim>\<open>store_end\<close> 7776001001, one millisecond more than \<^verbatim>\<open>store_begin\<close> plus ninety
  days; its audit count is the number of challenges.
\<close>

theorem contract_window_after_clock_tick:
  "contract_fields env_ok body0 = contr0
   \<and> store_begin contr0 = 1000
   \<and> store_end contr0 = 7776001001
   \<and> store_end contr0 \<noteq> store_begin contr0 + ms_90d
   \<and> audit_count contr0 = length (body_challenges body0)
   \<and> GetStorageOffer contr0 []
       \<in> set (calls (snd (addShardToFrame env_ok constants_src rates0 req0 world0)))"
  by (simp add: router_defs example_defs)

subsection \<open>The two phases\<close>

lemma with_farmer_records: "records_farmer (with_farmer farmer c a item) farmer c a"
  by (simp add: with_farmer_def records_farmer_added)

lemma with_farmer_hash: "item_hash (with_farmer farmer c a item) = item_hash item"
  by (simp add: with_farmer_def item_hash_added)

lemma started_from_hash:
  assumes "case items w h of None \<Rightarrow> True | Some it \<Rightarrow> item_hash it = h"
  shows "item_hash (started_from e h w) = h"
  using assms
  by (simp add: started_from_def contracts_load_def StorageItem_new_def split: option.splits)

lemma started_from_calls [simp]:
  "started_from e h (issue x w) = started_from e h w"
  by (simp add: started_from_def contracts_load_def split: option.splits)

text \<open>Phase A, when the offer and the save succeed.\<close>

lemma getContractForShard_saved:
  assumes "getStorageOffer e contr bl = Inr (farmer, c)"
    and "save_fault e (with_farmer farmer c audit (started_from e (data_hash contr) w)) = None"
  shows "getContractForShard e contr audit bl w =
          (Inr (farmer, c),
           (issue (ContractsSave (with_farmer farmer c audit (started_from e (data_hash contr) w)) True)
             (issue (GetStorageOffer contr bl) (issue (ContractsLoad (data_hash contr)) w)))
           \<lparr>items := (items w)
               (item_hash (with_farmer farmer c audit (started_from e (data_hash contr) w))
                  \<mapsto>
                store_merged (items w)
                  (with_farmer farmer c audit (started_from e (data_hash contr) w)))\<rparr>)"
  using assms
  by (simp add: getContractForShard_load load_callback_def Let_def contracts_save_def
      with_farmer_def started_from_def)

lemma store_merged_contracts:
  "contracts item farmer = Some c \<Longrightarrow> contracts (store_merged store item) farmer = Some c"
  by (simp add: store_merged_def merge_items_def split: option.splits)

text \<open>
  Claim C2. For every request whose Phase A succeeds (the network answers the storage
  offer with a farmer and its contract, and the negotiation store saves the item) and
  whose Phase B fails (\<^verbatim>\<open>getConsignmentPointer\<close> answers with an error), the caller
  receives the service-unavailable error carrying that error's message, and the entry
  committed in Phase A is not rolled back: the store still holds, under the shard hash,
  an item with that farmer's contract, and every later load of the hash that does not
  itself fail returns it.
\<close>

theorem consignment_failure_keeps_contract:
  assumes reach: "reaches_negotiation e consts up req w frame pointer"
    and keyed: "case items w (body_hash (req_body req)) of
                  None \<Rightarrow> True
                | Some it \<Rightarrow> item_hash it = body_hash (req_body req)"
    and offered: "getStorageOffer e (contract_fields e (req_body req))
                    (blacklist_of (req_body req)) = Inr (farmer, c)"
    and saved: "save_fault e
                  (with_farmer farmer c
                    (fromRecords (body_challenges (req_body req)) (body_tree (req_body req)))
                    (started_from e (body_hash (req_body req)) w)) = None"
    and refused: "getConsignmentPointer e farmer c
                    (fromRecords (body_challenges (req_body req)) (body_tree (req_body req)))
                  = Inl msg"
  shows "fst (addShardToFrame e consts up req w) = Inl (ServiceUnavailableError msg)
       \<and> (\<exists>item. items (snd (addShardToFrame e consts up req w)) (body_hash (req_body req))
                    = Some item
                \<and> contracts item farmer = Some c
                \<and> (\<forall>e2. load_fault e2 (body_hash (req_body req)) = None \<longrightarrow>
                      fst (contracts_load e2 (body_hash (req_body req))
                            (snd (addShardToFrame e consts up req w))) = Inr item))"
proof -
  let ?b = "req_body req"
  let ?audit = "fromRecords (body_challenges ?b) (body_tree ?b)"
  let ?item = "with_farmer farmer c ?audit (started_from e (body_hash ?b) w)"
  let ?kept = "store_merged (items w) ?item"
  have dh: "data_hash (contract_fields e ?b) = body_hash ?b"
    by (simp add: contract_fields_def)
  have ih: "item_hash ?item = body_hash ?b"
    using keyed by (simp add: with_farmer_hash started_from_hash)
  have run: "addShardToFrame e consts up req w =
      (Inl (ServiceUnavailableError msg),
       issue (LogWarn ''Could not get consignment pointer for frame'')
        (issue (GetConsignmentPointer farmer c ?audit)
          ((issue (ContractsSave ?item True)
             (issue (GetStorageOffer (contract_fields e ?b) (blacklist_of ?b))
               (issue (ContractsLoad (body_hash ?b))
                 (issue (ContractNew (contract_fields e ?b))
                   (issue (AuditStreamFromRecords (body_challenges ?b) (body_tree ?b))
                     (issue (PointerCreate (pointerData ?b))
                       (issue (FrameFindOne (params_frame req) (user_id (req_user w))) w)))))))
           \<lparr>items := (items w)(body_hash ?b \<mapsto> ?kept)\<rparr>)))"
    using reach offered saved refused
    by (simp add: reaches_negotiation_def addShardToFrame_def pointer_callback_def Let_def
        negotiated_callback_def getContractForShard_saved dh ih blacklist_of_def)
  have "contracts ?item farmer = Some c"
    using with_farmer_records [of farmer c ?audit] by (simp add: records_farmer_def)
  then have "contracts ?kept farmer = Some c"
    by (rule store_merged_contracts)
  then show ?thesis
    unfolding run by (simp add: contracts_load_def)
qed

theorem consignment_failure_keeps_contract_witness:
  "reaches_negotiation env_no_token constants_src rates0 req0 world0
     \<lparr>frame_id = ''frame1'', shards = []\<rparr> (pointerData body0)
   \<and> getStorageOffer env_no_token (contract_fields env_no_token body0) [] = Inr (''F1'', contr0)
   \<and> getConsignmentPointer env_no_token ''F1'' contr0 audit0 = Inl ''farmer unreachable''
   \<and> fst (addShardToFrame env_no_token constants_src rates0 req0 world0)
       = Inl (ServiceUnavailableError ''farmer unreachable'')
   \<and> (\<exists>item. items (snd (addShardToFrame env_no_token constants_src rates0 req0 world0)) ''h1''
                = Some item
            \<and> contracts item ''F1'' = Some contr0
            \<and> fst (contracts_load env_ok ''h1''
                     (snd (addShardToFrame env_no_token constants_src rates0 req0 world0)))
                = Inr item)"
proof -
  have b: "req_body req0 = body0" "body_hash body0 = ''h1''"
    "fromRecords (body_challenges body0) (body_tree body0) = audit0"
    "blacklist_of body0 = []"
    by (simp_all add: req0_def body0_def audit0_def blacklist_of_def)
  have reach: "reaches_negotiation env_no_token constants_src rates0 req0 world0
      \<lparr>frame_id = ''frame1'', shards = []\<rparr> (pointerData body0)"
    by (simp add: reaches_negotiation_def js_gt_def example_defs env_no_token_def)
  have keyed: "case items world0 (body_hash (req_body req0)) of
                 None \<Rightarrow> True | Some it \<Rightarrow> item_hash it = body_hash (req_body req0)"
    by (simp add: world0_def)
  have offered: "getStorageOffer env_no_token (contract_fields env_no_token (req_body req0))
                   (blacklist_of (req_body req0)) = Inr (''F1'', contr0)"
    by (simp add: b) (simp add: contract_fields_def ms_90d_def example_defs env_no_token_def)
  have saved: "save_fault env_no_token x = None" for x
    by (simp add: env_no_token_def env_ok_def)
  have refused: "getConsignmentPointer env_no_token ''F1'' contr0
                   (fromRecords (body_challenges (req_body req0)) (body_tree (req_body req0)))
                 = Inl ''farmer unreachable''"
    by (simp add: env_no_token_def env_ok_def)
  have free: "load_fault env_ok ''h1'' = None"
    by (simp add: env_ok_def)
  from consignment_failure_keeps_contract [OF reach keyed offered saved refused]
  obtain item where
    "fst (addShardToFrame env_no_token constants_src rates0 req0 world0)
       = Inl (ServiceUnavailableError ''farmer unreachable'')"
    "items (snd (addShardToFrame env_no_token constants_src rates0 req0 world0)) ''h1''
       = Some item"
    "contracts item ''F1'' = Some contr0"
    "fst (contracts_load env_ok ''h1''
           (snd (addShardToFrame env_no_token constants_src rates0 req0 world0))) = Inr item"
    using free by (auto simp: b)
  with reach offered refused show ?thesis
    by (auto simp: b)
qed

subsection \<open>The order of the calls\<close>

text \<open>The request \<open>req0\<close> with collaborators that all succeed, evaluated.\<close>

lemma run_ok:
  "addShardToFrame env_ok constants_src rates0 req0 world0 =
     (Inr response0,
      \<lparr>calls = calls_to_offer @
                [ContractsSave item_F1 True, GetConsignmentPointer ''F1'' contr0 audit0,
                 FrameFindOnePopulate ''frame1'', RecordUploadBytes 1000000,
                 FrameAddShard pointer0 True, ResSend response0],
       items = [''h1'' \<mapsto> item_F1],
       req_user = user_recorded\<rparr>)"
  by (simp add: router_defs example_defs four_challenges)

text \<open>The same request when the attachment of the pointer fails.\<close>

lemma run_no_attach:
  "addShardToFrame env_no_attach constants_src rates0 req0 world0 =
     (Inl (InternalError ''frame write failed''),
      \<lparr>calls = calls_to_offer @
                [ContractsSave item_F1 True, GetConsignmentPointer ''F1'' contr0 audit0,
                 FrameFindOnePopulate ''frame1'', RecordUploadBytes 1000000,
                 FrameAddShard pointer0 False],
       items = [''h1'' \<mapsto> item_F1],
       req_user = user_recorded\<rparr>)"
  by (simp add: router_defs example_defs env_no_attach_def four_challenges)

text \<open>
  Claim C3. In every run of \<^verbatim>\<open>addShardToFrame\<close>: a storage offer that succeeds is
  followed at once by the save of a storage item that records the accepted farmer's
  contract, the audit records derived from the audit stream and metadata with a zeroed
  download counter; and every consignment-token request is immediately preceded by such
  a save that completed successfully. The token request is never issued before the save
  has succeeded.
\<close>

theorem token_request_follows_successful_save:
  assumes run: "addShardToFrame e consts up req w = (r, w')"
  shows "(\<forall>pre post contr bl farmer c.
            calls w' = calls w @ pre @ GetStorageOffer contr bl # post
            \<and> getStorageOffer e contr bl = Inr (farmer, c)
            \<longrightarrow> (\<exists>item rest.
                   post = ContractsSave item (save_fault e item = None) # rest
                   \<and> records_farmer item farmer c
                       (fromRecords (body_challenges (req_body req)) (body_tree (req_body req)))))
       \<and> (\<forall>pre post farmer c a.
            calls w' = calls w @ pre @ GetConsignmentPointer farmer c a # post
            \<longrightarrow> (\<exists>pre' item.
                   pre = pre' @ [ContractsSave item True]
                   \<and> records_farmer item farmer c a))"
  using assms
  apply (simp add: addShardToFrame_def pointer_callback_def negotiated_callback_def
      reload_callback_def getContractForShard_load load_callback_def contracts_save_def Let_def
      split: sum.splits prod.splits option.splits if_splits)
  apply (auto simp: records_farmer_added Cons_eq_append_conv)
  done

theorem token_request_follows_successful_save_witness:
  "calls (snd (addShardToFrame env_ok constants_src rates0 req0 world0)) =
     calls world0 @ (calls_to_offer @ [ContractsSave item_F1 True])
       @ GetConsignmentPointer ''F1'' contr0 audit0
         # [FrameFindOnePopulate ''frame1'', RecordUploadBytes 1000000,
            FrameAddShard pointer0 True, ResSend response0]
   \<and> (\<exists>pre' item. calls_to_offer @ [ContractsSave item_F1 True] = pre' @ [ContractsSave item True]
          \<and> records_farmer item ''F1'' contr0 audit0)"
proof -
  have occ: "calls (snd (addShardToFrame env_ok constants_src rates0 req0 world0)) =
     calls world0 @ (calls_to_offer @ [ContractsSave item_F1 True])
       @ GetConsignmentPointer ''F1'' contr0 audit0
         # [FrameFindOnePopulate ''frame1'', RecordUploadBytes 1000000,
            FrameAddShard pointer0 True, ResSend response0]"
    by (simp add: run_ok) (simp add: world0_def)
  have run: "addShardToFrame env_ok constants_src rates0 req0 world0 =
      (fst (addShardToFrame env_ok constants_src rates0 req0 world0),
       snd (addShardToFrame env_ok constants_src rates0 req0 world0))"
    by simp
  from token_request_follows_successful_save [OF run, THEN conjunct2, rule_format, OF occ] occ
  show ?thesis by simp
qed

text \<open>
  Claim C8 (amended). In every run of \<^verbatim>\<open>addShardToFrame\<close> the user document (with its
  upload counters) changes only through the \<^verbatim>\<open>recordUploadBytes\<close> call: a request
  that ends without that call leaves the user document as it was. The call is issued
  right after the consignment token was obtained and the frame was read again, and no
  attachment of the pointer (\<^verbatim>\<open>frame.addShard\<close>) precedes it: the counters are
  recorded before the attachment is attempted, not after it.
\<close>

theorem counters_recorded_before_attachment:
  assumes run: "addShardToFrame e consts up req w = (r, w')"
  shows "(req_user w' = req_user w
          \<or> (\<exists>n. RecordUploadBytes n \<in> set (drop (length (calls w)) (calls w'))))
       \<and> (\<forall>pre post n.
            calls w' = calls w @ pre @ RecordUploadBytes n # post
            \<longrightarrow> (\<exists>pre' farmer c a fid.
                   pre = pre' @ [GetConsignmentPointer farmer c a, FrameFindOnePopulate fid])
                \<and> (\<forall>p ok. FrameAddShard p ok \<notin> set pre))"
  using assms
  apply (simp add: addShardToFrame_def pointer_callback_def negotiated_callback_def
      reload_callback_def getContractForShard_load load_callback_def contracts_save_def Let_def
      split: sum.splits prod.splits option.splits if_splits)
  apply (auto simp: Cons_eq_append_conv)
  done

theorem counters_recorded_before_attachment_witness:
  "calls (snd (addShardToFrame env_ok constants_src rates0 req0 world0)) =
     calls world0
       @ (calls_to_offer @ [ContractsSave item_F1 True,
                            GetConsignmentPointer ''F1'' contr0 audit0,
                            FrameFindOnePopulate ''frame1''])
       @ RecordUploadBytes 1000000 # [FrameAddShard pointer0 True, ResSend response0]
   \<and> (\<exists>pre' farmer c a fid.
         calls_to_offer @ [ContractsSave item_F1 True,
                           GetConsignmentPointer ''F1'' contr0 audit0,
                           FrameFindOnePopulate ''frame1'']
         = pre' @ [GetConsignmentPointer farmer c a, FrameFindOnePopulate fid])
   \<and> FrameAddShard pointer0 True
       \<notin> set (calls_to_offer @ [ContractsSave item_F1 True,
                                GetConsignmentPointer ''F1'' contr0 audit0,
                                FrameFindOnePopulate ''frame1''])"
proof -
  have occ: "calls (snd (addShardToFrame env_ok constants_src rates0 req0 world0)) =
     calls world0
       @ (calls_to_offer @ [ContractsSave item_F1 True,
                            GetConsignmentPointer ''F1'' contr0 audit0,
                            FrameFindOnePopulate ''frame1''])
       @ RecordUploadBytes 1000000 # [FrameAddShard pointer0 True, ResSend response0]"
    by (simp add: run_ok) (simp add: world0_def)
  have run: "addShardToFrame env_ok constants_src rates0 req0 world0 =
      (fst (addShardToFrame env_ok constants_src rates0 req0 world0),
       snd (addShardToFrame env_ok constants_src rates0 req0 world0))"
    by simp
  from counters_recorded_before_attachment [OF run, THEN conjunct2, rule_format, OF occ] occ
  show ?thesis by blast
qed

text \<open>
  The claim as stated fails when the attachment itself fails: the request ends in an
  internal error, the pointer was never attached to the frame, and the user's counters
  have already grown by the shard's size.
\<close>

theorem counters_recorded_though_attachment_failed_counterexample:
  "fst (addShardToFrame env_no_attach constants_src rates0 req0 world0)
     = Inl (InternalError ''frame write failed'')
   \<and> FrameAddShard pointer0 True
       \<notin> set (calls (snd (addShardToFrame env_no_attach constants_src rates0 req0 world0)))
   \<and> bytesUploaded (req_user world0)
       = \<lparr>lastHourBytes = 0, lastDayBytes = 0, lastMonthBytes = 0\<rparr>
   \<and> bytesUploaded (req_user (snd (addShardToFrame env_no_attach constants_src rates0 req0 world0)))
       = \<lparr>lastHourBytes = 1000000, lastDayBytes = 1000000, lastMonthBytes = 1000000\<rparr>"
  by (simp add: run_no_attach) (simp add: example_defs)

end
